theory Spec2Isabelle
  imports Complex_Main "HOL-Library.AList" "HOL-Library.Multiset"
begin

section \<open>The DOM query cache (src/utils/domCache.ts)\<close>

text \<open>
  JavaScript values are modelled as follows.  A \<^verbatim>\<open>number\<close> that the code uses as a
  count, an index, a score or a millisecond timestamp is an \<^typ>\<open>int\<close> (fractions, NaN
  and the infinities are outside the model, except the \<^verbatim>\<open>Infinity\<close> that
  \<^verbatim>\<open>findOldestEntry\<close> starts from).  The capacity \<^verbatim>\<open>maxEntries\<close>, which the
  constructor takes as it is given and the code only compares with the size, is a
  \<^typ>\<open>real\<close>.  An optional property is an \<^typ>\<open>'a option\<close>
  (\<open>None\<close> for \<^verbatim>\<open>undefined\<close>).  A string is a \<^typ>\<open>string\<close>.  Every call of
  \<^verbatim>\<open>Date.now()\<close> is an explicit argument \<open>now\<close> of the function that makes it.
  A \<^verbatim>\<open>Map\<close> is an association list in insertion order: \<^const>\<open>map_of\<close> is
  \<^verbatim>\<open>Map.get\<close>, \<^const>\<open>AList.update\<close> is \<^verbatim>\<open>Map.set\<close> (an existing key keeps its
  place, a new key goes last) and \<^const>\<open>AList.delete\<close> is \<^verbatim>\<open>Map.delete\<close>.
\<close>

subsection \<open>Truthiness and number rendering\<close>

definition strOr :: "string option \<Rightarrow> string \<Rightarrow> string" where
  \<comment> \<open>\<^verbatim>\<open>s || d\<close> on an optional string: \<^verbatim>\<open>undefined\<close> and \<^verbatim>\<open>''\<close> are falsy.\<close>
  "strOr s d = (case s of None \<Rightarrow> d | Some v \<Rightarrow> if v = [] then d else v)"

definition numOr :: "int option \<Rightarrow> int \<Rightarrow> int" where
  \<comment> \<open>\<^verbatim>\<open>n || d\<close> on an optional number: \<^verbatim>\<open>undefined\<close> and \<^verbatim>\<open>0\<close> are falsy.\<close>
  "numOr n d = (case n of None \<Rightarrow> d | Some v \<Rightarrow> if v = 0 then d else v)"

definition truthyStr :: "string option \<Rightarrow> bool" where
  "truthyStr s = (case s of None \<Rightarrow> False | Some v \<Rightarrow> v \<noteq> [])"

definition truthyNum :: "int option \<Rightarrow> bool" where
  "truthyNum n = (case n of None \<Rightarrow> False | Some v \<Rightarrow> v \<noteq> 0)"

definition digitChar :: "nat \<Rightarrow> char" where
  "digitChar d = ''0123456789'' ! d"

fun digits10 :: "nat \<Rightarrow> string" where
  "digits10 n = (if n < 10 then [digitChar n] else digits10 (n div 10) @ [digitChar (n mod 10)])"

declare digits10.simps [simp del]

definition numberToString :: "int \<Rightarrow> string" where
  \<comment> \<open>What a template literal writes for an integral number.\<close>
  "numberToString i = (if i < 0 then CHR ''-'' # digits10 (nat (- i)) else digits10 (nat i))"

subsection \<open>Entries, the cache and its key\<close>

record 'a CacheEntry =
  data :: 'a
  timestamp :: int
  url :: string
  entry_selector :: "string option"
  entry_searchText :: "string option"

record 'a DOMCache =
  cache :: "(string \<times> 'a CacheEntry) list"
  maxAge :: int
  maxEntries :: real

text \<open>The \<^verbatim>\<open>params\<close> argument of \<^verbatim>\<open>generateKey\<close>, \<^verbatim>\<open>get\<close> and \<^verbatim>\<open>set\<close>.\<close>

record QueryShape =
  selector :: "string option"
  searchText :: "string option"
  offset :: "int option"
  limit :: "int option"

definition DOMCache_new :: "int \<Rightarrow> real \<Rightarrow> 'a DOMCache" where
  "DOMCache_new maxAgeSeconds maxEntries0 =
     \<lparr>cache = [], maxAge = maxAgeSeconds * 1000, maxEntries = maxEntries0\<rparr>"

definition generateKey :: "string \<Rightarrow> QueryShape \<Rightarrow> string" where
  "generateKey u params =
     u @ '':'' @ strOr (selector params) '''' @ '':'' @ strOr (searchText params) '''' @ '':'' @
     numberToString (numOr (offset params) 0) @ '':'' @ numberToString (numOr (limit params) 20)"

definition DOMCache_get ::
  "'a DOMCache \<Rightarrow> string \<Rightarrow> QueryShape \<Rightarrow> int \<Rightarrow> 'a option \<times> 'a DOMCache" where
  \<comment> \<open>The result is the returned value (\<open>None\<close> for \<^verbatim>\<open>null\<close>) and the cache afterwards.\<close>
  "DOMCache_get c u params now =
     (let key = generateKey u params in
      case map_of (cache c) key of
        None \<Rightarrow> (None, c)
      | Some entry \<Rightarrow>
          if now - timestamp entry > maxAge c
          then (None, c\<lparr>cache := AList.delete key (cache c)\<rparr>)
          else (Some (data entry), c))"

datatype oldest_time = Infinity | Finite int

fun earlier :: "int \<Rightarrow> oldest_time \<Rightarrow> bool" where
  "earlier t Infinity = True"
| "earlier t (Finite t') = (t < t')"

fun findOldestLoop ::
  "(string \<times> 'a CacheEntry) list \<Rightarrow> string option \<Rightarrow> oldest_time \<Rightarrow> string option" where
  "findOldestLoop [] oldestKey oldestTime = oldestKey"
| "findOldestLoop ((key, entry) # rest) oldestKey oldestTime =
     (if earlier (timestamp entry) oldestTime
      then findOldestLoop rest (Some key) (Finite (timestamp entry))
      else findOldestLoop rest oldestKey oldestTime)"

definition findOldestEntry :: "'a DOMCache \<Rightarrow> string option" where
  "findOldestEntry c = findOldestLoop (cache c) None Infinity"

definition DOMCache_set ::
  "'a DOMCache \<Rightarrow> string \<Rightarrow> QueryShape \<Rightarrow> 'a \<Rightarrow> int \<Rightarrow> 'a DOMCache" where
  \<comment> \<open>\<^verbatim>\<open>if (oldestKey)\<close> is a truthiness test: \<^verbatim>\<open>null\<close> and \<^verbatim>\<open>''\<close> delete nothing.\<close>
  "DOMCache_set c u params d now =
     (let key = generateKey u params;
          c1 = (if real (length (cache c)) \<ge> maxEntries c \<and> map_of (cache c) key = None
                then (case findOldestEntry c of
                        None \<Rightarrow> c
                      | Some oldestKey \<Rightarrow>
                          if oldestKey \<noteq> [] then c\<lparr>cache := AList.delete oldestKey (cache c)\<rparr>
                          else c)
                else c)
      in c1\<lparr>cache := AList.update key
              \<lparr>data = d, timestamp = now, url = u,
               entry_selector = selector params, entry_searchText = searchText params\<rparr>
              (cache c1)\<rparr>)"

definition deleteKeys ::
  "string list \<Rightarrow> (string \<times> 'a CacheEntry) list \<Rightarrow> (string \<times> 'a CacheEntry) list" where
  \<comment> \<open>\<^verbatim>\<open>keysToDelete.forEach(key => this.cache.delete(key))\<close>\<close>
  "deleteKeys keysToDelete entries = foldl (\<lambda>m key. AList.delete key m) entries keysToDelete"

definition DOMCache_invalidate :: "'a DOMCache \<Rightarrow> string option \<Rightarrow> 'a DOMCache" where
  \<comment> \<open>\<^verbatim>\<open>if (url)\<close> is a truthiness test: \<^verbatim>\<open>undefined\<close> and \<^verbatim>\<open>''\<close> clear the whole store.\<close>
  "DOMCache_invalidate c u =
     (case u of
        None \<Rightarrow> c\<lparr>cache := []\<rparr>
      | Some v \<Rightarrow>
          if v \<noteq> []
          then c\<lparr>cache := deleteKeys (map fst (filter (\<lambda>(key, entry). url entry = v) (cache c)))
                              (cache c)\<rparr>
          else c\<lparr>cache := []\<rparr>)"

definition DOMCache_invalidateOlderThan :: "'a DOMCache \<Rightarrow> int \<Rightarrow> int \<Rightarrow> 'a DOMCache" where
  "DOMCache_invalidateOlderThan c ageSeconds now =
     (let maxAge' = ageSeconds * 1000 in
      c\<lparr>cache := deleteKeys
                    (map fst (filter (\<lambda>(key, entry). now - timestamp entry > maxAge') (cache c)))
                    (cache c)\<rparr>)"

definition DOMCache_size :: "'a DOMCache \<Rightarrow> int" where
  "DOMCache_size c = int (length (cache c))"

section \<open>The cache tools (src/tools/cache.ts)\<close>

subsection \<open>browser\_clear\_cache\<close>

record ClearCacheParams =
  cc_url :: "string option"
  olderThanSeconds :: "int option"

definition clearCache_handle ::
  "ClearCacheParams \<Rightarrow> int \<Rightarrow> 'a DOMCache \<Rightarrow> string list \<times> 'a DOMCache" where
  \<comment> \<open>The strings are the \<^verbatim>\<open>response.addResult\<close> calls in order; \<open>now\<close> is the
      \<^verbatim>\<open>Date.now()\<close> of \<^verbatim>\<open>invalidateOlderThan\<close>.\<close>
  "clearCache_handle params now c =
     (let (msg, c') =
            (if truthyNum (olderThanSeconds params)
             then (''Cleared cache entries older than '' @
                     numberToString (the (olderThanSeconds params)) @ '' seconds'',
                   DOMCache_invalidateOlderThan c (the (olderThanSeconds params)) now)
             else if truthyStr (cc_url params)
             then (''Cleared cache for URL: '' @ the (cc_url params),
                   DOMCache_invalidate c (cc_url params))
             else (''Cleared entire DOM cache'', DOMCache_invalidate c None))
      in ([msg, ''Current cache size: '' @ numberToString (DOMCache_size c') @ '' entries''], c'))"

subsection \<open>Strings as the page script sees them\<close>

text \<open>
  A \<^typ>\<open>char\<close> stands for one UTF-16 code unit in the ASCII range; case mapping and the
  word and white-space classes are the ASCII ones.
\<close>

definition lowerChar :: "char \<Rightarrow> char" where
  "lowerChar ch =
     (case map_of (zip ''ABCDEFGHIJKLMNOPQRSTUVWXYZ'' ''abcdefghijklmnopqrstuvwxyz'') ch of
        None \<Rightarrow> ch
      | Some l \<Rightarrow> l)"

definition toLowerCase :: "string \<Rightarrow> string" where
  "toLowerCase s = map lowerChar s"

definition startsWith :: "string \<Rightarrow> string \<Rightarrow> bool" where
  "startsWith s t = (take (length t) s = t)"

fun str_includes :: "string \<Rightarrow> string \<Rightarrow> bool" where
  "str_includes [] t = (t = [])"
| "str_includes (x # xs) t = (startsWith (x # xs) t \<or> str_includes xs t)"

definition isWhiteSpace :: "char \<Rightarrow> bool" where
  "isWhiteSpace ch = (ch \<in> set [CHR '' '', CHR 0x09, CHR 0x0A, CHR 0x0B, CHR 0x0C, CHR 0x0D])"

definition trim :: "string \<Rightarrow> string" where
  "trim s = rev (dropWhile isWhiteSpace (rev (dropWhile isWhiteSpace s)))"

definition jsSlice :: "int \<Rightarrow> int \<Rightarrow> 'a list \<Rightarrow> 'a list" where
  \<comment> \<open>\<^verbatim>\<open>xs.slice(start, end)\<close>: a negative index counts from the end, both are clamped.\<close>
  "jsSlice start end xs =
     (let len = int (length xs);
          k = (if start < 0 then max (len + start) 0 else min start len);
          final = (if end < 0 then max (len + end) 0 else min end len)
      in take (nat (final - k)) (drop (nat k) xs))"

subsection \<open>The document\<close>

text \<open>
  An element is what the scripts read of it: its tag name, its \<^verbatim>\<open>textContent\<close>, its
  child nodes (text nodes with their text, any other node without), its attributes in
  order, and its bounding rectangle, whose lengths are reals.
\<close>

datatype childNode = TextNode string | OtherNode

record Element =
  tagName :: string
  el_textContent :: string
  childNodes :: "childNode list"
  attributes :: "(string \<times> string) list"
  rectTop :: real
  rectLeft :: real
  rectWidth :: real
  rectHeight :: real

datatype error = InvalidArgument | EvaluationFailure string

text \<open>
  The page: its elements in document order (\<^verbatim>\<open>querySelectorAll('*')\<close>), its selector
  engine (which throws on a selector it cannot parse), the viewport and the page's clock.
\<close>

record Page =
  allElements :: "Element list"
  querySelectorAll :: "string \<Rightarrow> error + Element list"
  innerWidth :: real
  innerHeight :: real
  pageNow :: int

fun directTextOf :: "childNode list \<Rightarrow> string" where
  "directTextOf [] = []"
| "directTextOf (TextNode t # nodes) = t @ directTextOf nodes"
| "directTextOf (OtherNode # nodes) = directTextOf nodes"

subsection \<open>browser\_query\_dom: what the scripts return\<close>

record Position =
  top :: real
  left :: real
  width :: real
  height :: real

record ElementInfo =
  index :: int
  info_tagName :: string
  textContent :: string
  relevanceScore :: "int option"
  isVisible :: bool
  position :: Position
  info_attributes :: "(string \<times> string) list option"
  ref :: string

record QueryResult =
  result_searchText :: "string option"
  totalCount :: int
  result_offset :: int
  result_limit :: int
  returnedCount :: int
  hasMore :: bool
  elements :: "ElementInfo list"

definition elementInfo ::
  "Page \<Rightarrow> string \<Rightarrow> bool \<Rightarrow> int \<Rightarrow> int \<Rightarrow> string \<Rightarrow> int option \<Rightarrow> Element \<Rightarrow> ElementInfo" where
  \<comment> \<open>The descriptor both scripts build; \<open>prefix\<close> is \<^verbatim>\<open>query-\<close> or \<^verbatim>\<open>search-\<close>.  An
      element without the attribute \<^verbatim>\<open>data-mcp-ref\<close> is also given it in the page.\<close>
  "elementInfo page prefix includeAttrs maxTextLength i txt sc el =
     \<lparr>index = i,
      info_tagName = toLowerCase (tagName el),
      textContent = jsSlice 0 maxTextLength (trim txt),
      relevanceScore = sc,
      isVisible = (rectWidth el > 0 \<and> rectHeight el > 0 \<and>
                   rectTop el < innerHeight page \<and> rectTop el + rectHeight el > 0 \<and>
                   rectLeft el < innerWidth page \<and> rectLeft el + rectWidth el > 0),
      position = \<lparr>top = rectTop el, left = rectLeft el,
                  width = rectWidth el, height = rectHeight el\<rparr>,
      info_attributes = (if includeAttrs then Some (attributes el) else None),
      ref = (case map_of (attributes el) ''data-mcp-ref'' of
               Some r \<Rightarrow> r
             | None \<Rightarrow> prefix @ numberToString i @ ''-'' @ numberToString (pageNow page))\<rparr>"

subsection \<open>The scored search script\<close>

text \<open>
  \<^verbatim>\<open>new RegExp('\\b' + searchText + '\\b', 'i').test(directText)\<close> belongs to the
  page's runtime.  The script takes it as the argument \<open>re\<close>, from the pattern source and
  the subject to the outcome of the test, or to the error the constructor throws.
\<close>

type_synonym regExpTest = "string \<Rightarrow> string \<Rightarrow> error + bool"

definition textScore :: "regExpTest \<Rightarrow> string \<Rightarrow> string \<Rightarrow> error + int" where
  "textScore re searchText' directText =
     (let lowerText = toLowerCase directText in
      if lowerText = searchText' then Inr 100
      else if startsWith lowerText searchText' then Inr 50
      else (case re searchText' directText of
              Inl err \<Rightarrow> Inl err
            | Inr True \<Rightarrow> Inr 30
            | Inr False \<Rightarrow> if str_includes lowerText searchText' then Inr 10 else Inr 0))"

definition visibleBonus :: "Element \<Rightarrow> int" where
  "visibleBonus el = (if rectWidth el > 0 \<and> rectHeight el > 0 then 5 else 0)"

definition semanticBonus :: "Element \<Rightarrow> int" where
  "semanticBonus el =
     (if toLowerCase (tagName el) \<in>
           set [''h1'', ''h2'', ''h3'', ''h4'', ''h5'', ''h6'', ''button'', ''a'', ''label'']
      then 10 else 0)"

definition isMatch :: "string \<Rightarrow> Element \<Rightarrow> bool" where
  "isMatch searchText' el =
     (str_includes (toLowerCase (directTextOf (childNodes el))) searchText' \<or>
      list_ex (\<lambda>(name, v). str_includes (toLowerCase v) searchText') (attributes el))"

record Match =
  element :: Element
  score :: int
  match_text :: string

fun collectMatches :: "regExpTest \<Rightarrow> string \<Rightarrow> Element list \<Rightarrow> error + Match list" where
  "collectMatches re searchText' [] = Inr []"
| "collectMatches re searchText' (el # els) =
     (if toLowerCase (tagName el) = ''script'' \<or> toLowerCase (tagName el) = ''style''
      then collectMatches re searchText' els
      else if isMatch searchText' el
      then (case textScore re searchText' (directTextOf (childNodes el)) of
              Inl err \<Rightarrow> Inl err
            | Inr s \<Rightarrow>
                (case collectMatches re searchText' els of
                   Inl err \<Rightarrow> Inl err
                 | Inr matches \<Rightarrow>
                     Inr (\<lparr>element = el,
                           score = s + visibleBonus el + semanticBonus el,
                           match_text = directTextOf (childNodes el)\<rparr> # matches)))
      else collectMatches re searchText' els)"

definition sortByScore :: "Match list \<Rightarrow> Match list" where
  \<comment> \<open>\<^verbatim>\<open>matches.sort((a, b) => b.score - a.score)\<close>; \<^verbatim>\<open>Array.prototype.sort\<close> is stable.\<close>
  "sortByScore matches = sort_key (\<lambda>m. - score m) matches"

definition searchScript ::
  "regExpTest \<Rightarrow> Page \<Rightarrow> string \<Rightarrow> string \<Rightarrow> int \<Rightarrow> int \<Rightarrow> int \<Rightarrow> bool \<Rightarrow> error + QueryResult" where
  \<comment> \<open>\<open>searchText'\<close> is the lower-cased text of the script's \<^verbatim>\<open>searchText\<close> constant,
      \<open>rawText\<close> the text echoed in the result.\<close>
  "searchScript re page searchText' rawText offset' limit' maxTextLength includeAttrs =
     (case collectMatches re searchText' (allElements page) of
        Inl err \<Rightarrow> Inl err
      | Inr matches \<Rightarrow>
          (let sorted = sortByScore matches;
               totalCount' = int (length sorted);
               paginatedMatches = jsSlice offset' (offset' + limit') sorted;
               results = map (\<lambda>(idx, m).
                               elementInfo page ''search-'' includeAttrs maxTextLength
                                 (offset' + int idx) (match_text m) (Some (score m)) (element m))
                             (enumerate 0 paginatedMatches)
           in Inr \<lparr>result_searchText = Some rawText,
                   totalCount = totalCount',
                   result_offset = offset',
                   result_limit = limit',
                   returnedCount = int (length results),
                   hasMore = (offset' + limit' < totalCount'),
                   elements = results\<rparr>))"

subsection \<open>The selector script\<close>

definition selectorScript ::
  "Page \<Rightarrow> string \<Rightarrow> int \<Rightarrow> int \<Rightarrow> int \<Rightarrow> bool \<Rightarrow> error + QueryResult" where
  \<comment> \<open>The loop \<^verbatim>\<open>for (i = offset; i < Math.min(elements.length, offset + limit); i++)\<close>
      reads \<^verbatim>\<open>elements[i]\<close>; at a negative \<open>i\<close> that is \<^verbatim>\<open>undefined\<close> and the next
      line throws a \<^verbatim>\<open>TypeError\<close>.\<close>
  "selectorScript page sel offset' limit' maxTextLength includeAttrs =
     (case querySelectorAll page sel of
        Inl err \<Rightarrow> Inl err
      | Inr els \<Rightarrow>
          (let totalCount' = int (length els);
               stop = min totalCount' (offset' + limit')
           in if offset' < stop \<and> offset' < 0
              then Inl (EvaluationFailure ''TypeError'')
              else
                (let results = map (\<lambda>i. elementInfo page ''query-'' includeAttrs maxTextLength i
                                          (el_textContent (els ! nat i)) None (els ! nat i))
                                   [offset' .. stop - 1]
                 in Inr \<lparr>result_searchText = None,
                         totalCount = totalCount',
                         result_offset = offset',
                         result_limit = limit',
                         returnedCount = int (length results),
                         hasMore = (offset' + limit' < totalCount'),
                         elements = results\<rparr>)))"

subsection \<open>The handler of browser\_query\_dom\<close>

text \<open>
  The handler writes one of two scripts and has the page evaluate it.  A script is
  modelled by the values the handler puts into its text; the selector and the search text
  are the strings the page reads back from the quoted literals (texts without a quote, a
  backslash or a line break).
\<close>

datatype Script =
    SelectorScript string int int int bool
  | SearchScript string string int int int bool

definition evaluateScript :: "regExpTest \<Rightarrow> Page \<Rightarrow> Script \<Rightarrow> error + QueryResult" where
  "evaluateScript re page js =
     (case js of
        SelectorScript sel offset' limit' maxTextLength includeAttrs \<Rightarrow>
          selectorScript page sel offset' limit' maxTextLength includeAttrs
      | SearchScript searchText' rawText offset' limit' maxTextLength includeAttrs \<Rightarrow>
          searchScript re page searchText' rawText offset' limit' maxTextLength includeAttrs)"

record QueryParams =
  q_selector :: "string option"
  q_searchText :: "string option"
  q_limit :: int
  q_offset :: int
  includeAttributes :: bool
  maxTextLength :: int
  useCache :: bool
  forceRefresh :: bool

record Response =
  result :: QueryResult
  fromCache :: bool
  cacheTimestamp :: "int option"

definition queryShape :: "QueryParams \<Rightarrow> QueryShape" where
  \<comment> \<open>The shape the handler passes to the cache, with its own \<^verbatim>\<open>offset\<close> and \<^verbatim>\<open>limit\<close>.\<close>
  "queryShape params =
     \<lparr>selector = q_selector params, searchText = q_searchText params,
      offset = Some (numOr (Some (q_offset params)) 0),
      limit = Some (min (numOr (Some (q_limit params)) 20) 100)\<rparr>"

definition buildScript :: "QueryParams \<Rightarrow> error + Script" where
  \<comment> \<open>The \<^verbatim>\<open>else\<close> branch is \<^verbatim>\<open>throw new Error('Either selector or searchText must be
      provided')\<close>.\<close>
  "buildScript params =
     (let limit' = min (numOr (Some (q_limit params)) 20) 100;
          offset' = numOr (Some (q_offset params)) 0;
          maxTextLength' = numOr (Some (maxTextLength params)) 500
      in if truthyStr (q_selector params)
         then Inr (SelectorScript (the (q_selector params)) offset' limit' maxTextLength'
                     (includeAttributes params))
         else if truthyStr (q_searchText params)
         then Inr (SearchScript (toLowerCase (the (q_searchText params))) (the (q_searchText params))
                     offset' limit' maxTextLength' (includeAttributes params))
         else Inl InvalidArgument)"

definition queryDom_handle ::
  "(Script \<Rightarrow> error + QueryResult) \<Rightarrow> string \<Rightarrow> int \<Rightarrow> int \<Rightarrow> int \<Rightarrow> QueryParams \<Rightarrow>
   QueryResult DOMCache \<Rightarrow> (error + Response) \<times> QueryResult DOMCache" where
  \<comment> \<open>\<open>evaluate\<close> is \<^verbatim>\<open>tab.page.evaluate\<close>, \<open>currentUrl\<close> is \<^verbatim>\<open>tab.page.url()\<close>; \<open>tGet\<close>,
      \<open>tHit\<close> and \<open>tSet\<close> are the clock readings of \<^verbatim>\<open>domCache.get\<close>, of
      \<^verbatim>\<open>cacheTimestamp\<close> and of \<^verbatim>\<open>domCache.set\<close>.  \<^verbatim>\<open>tab.waitForCompletion\<close> runs its
      callback.  A cached result is an object, hence truthy.\<close>
  "queryDom_handle evaluate currentUrl tGet tHit tSet params c =
     (let (cached, c1) =
            (if useCache params \<and> \<not> forceRefresh params
             then DOMCache_get c currentUrl (queryShape params) tGet
             else (None, c))
      in case cached of
           Some r \<Rightarrow> (Inr \<lparr>result = r, fromCache = True, cacheTimestamp = Some tHit\<rparr>, c1)
         | None \<Rightarrow>
             (case buildScript params of
                Inl err \<Rightarrow> (Inl err, c1)
              | Inr javascript \<Rightarrow>
                  (case evaluate javascript of
                     Inl err \<Rightarrow> (Inl err, c1)
                   | Inr r \<Rightarrow>
                       (Inr \<lparr>result = r, fromCache = False, cacheTimestamp = None\<rparr>,
                        if useCache params
                        then DOMCache_set c1 currentUrl (queryShape params) r tSet
                        else c1))))"

subsection \<open>A fragment of the regular expressions of the page's runtime\<close>

text \<open>
  For a pattern source made of ordinary characters and the dot, the test
  \<^verbatim>\<open>/\bSOURCE\b/i\<close> is decided here as ECMAScript does: an ordinary character matches
  itself up to case, the dot matches any character but a line terminator, and \<^verbatim>\<open>\b\<close>
  holds where exactly one of the two neighbours is a word character.  Any other syntax
  character puts the source outside the fragment, which the function reports as an error
  of its own (ECMAScript may well accept such a source).
\<close>

definition isSyntaxChar :: "char \<Rightarrow> bool" where
  "isSyntaxChar ch = (ch \<in> set (''^$.*+?()[]{}|'' @ [CHR 0x5C]))"

definition isWordChar :: "char \<Rightarrow> bool" where
  "isWordChar ch =
     (ch \<in> set ''abcdefghijklmnopqrstuvwxyzABCDEFGHIJKLMNOPQRSTUVWXYZ0123456789_'')"

definition isLineTerminator :: "char \<Rightarrow> bool" where
  "isLineTerminator ch = (ch \<in> set [CHR 0x0A, CHR 0x0D])"

datatype atom = AnyChar | Literal char

fun parseAtoms :: "string \<Rightarrow> atom list option" where
  "parseAtoms [] = Some []"
| "parseAtoms (ch # rest) =
     (if ch = CHR ''.'' then map_option (Cons AnyChar) (parseAtoms rest)
      else if isSyntaxChar ch then None
      else map_option (Cons (Literal ch)) (parseAtoms rest))"

fun atomMatches :: "atom \<Rightarrow> char \<Rightarrow> bool" where
  "atomMatches AnyChar ch = (\<not> isLineTerminator ch)"
| "atomMatches (Literal a) ch = (lowerChar a = lowerChar ch)"

definition wordBoundary :: "string \<Rightarrow> nat \<Rightarrow> bool" where
  "wordBoundary s i =
     ((0 < i \<and> i \<le> length s \<and> isWordChar (s ! (i - 1))) \<noteq> (i < length s \<and> isWordChar (s ! i)))"

definition matchesAt :: "atom list \<Rightarrow> string \<Rightarrow> nat \<Rightarrow> bool" where
  "matchesAt atoms s i =
     (i + length atoms \<le> length s \<and>
      list_all2 atomMatches atoms (take (length atoms) (drop i s)))"

definition fragmentRegExp :: regExpTest where
  "fragmentRegExp source subject =
     (case parseAtoms source of
        None \<Rightarrow> Inl (EvaluationFailure ''pattern outside the modelled fragment'')
      | Some atoms \<Rightarrow>
          Inr (list_ex (\<lambda>i. wordBoundary subject i \<and> matchesAt atoms subject i \<and>
                            wordBoundary subject (i + length atoms))
                       [0 ..< Suc (length subject)]))"

section \<open>Sequences of cache operations\<close>

datatype 'a cache_op =
    OpGet string QueryShape int
  | OpSet string QueryShape 'a int
  | OpInvalidate "string option"
  | OpInvalidateOlderThan int int

fun apply_op :: "'a DOMCache \<Rightarrow> 'a cache_op \<Rightarrow> 'a DOMCache" where
  "apply_op c (OpGet u params now) = snd (DOMCache_get c u params now)"
| "apply_op c (OpSet u params d now) = DOMCache_set c u params d now"
| "apply_op c (OpInvalidate u) = DOMCache_invalidate c u"
| "apply_op c (OpInvalidateOlderThan ageSeconds now) = DOMCache_invalidateOlderThan c ageSeconds now"

definition run_ops :: "'a cache_op list \<Rightarrow> 'a DOMCache \<Rightarrow> 'a DOMCache" where
  "run_ops ops c = foldl apply_op c ops"

text \<open>
  An operation leaves the entry under the key \<open>k\<close> alone when it is a \<^verbatim>\<open>get\<close> of
  another key or one that does not find the entry expired, a \<^verbatim>\<open>set\<close> of another key that
  does not evict \<open>k\<close> as the oldest entry of a full store, an \<^verbatim>\<open>invalidate\<close> of another,
  non-empty page identity, or a prune by age that does not find the entry too old.
\<close>

fun leaves :: "string \<Rightarrow> 'a DOMCache \<Rightarrow> 'a cache_op \<Rightarrow> bool" where
  "leaves k c (OpGet u params now) =
     (generateKey u params \<noteq> k \<or>
      (case map_of (cache c) k of None \<Rightarrow> True | Some e \<Rightarrow> now - timestamp e \<le> maxAge c))"
| "leaves k c (OpSet u params d now) =
     (generateKey u params \<noteq> k \<and>
      \<not> (real (length (cache c)) \<ge> maxEntries c \<and>
         map_of (cache c) (generateKey u params) = None \<and> findOldestEntry c = Some k))"
| "leaves k c (OpInvalidate v) =
     (case v of
        None \<Rightarrow> False
      | Some s \<Rightarrow> s \<noteq> [] \<and> (case map_of (cache c) k of None \<Rightarrow> True | Some e \<Rightarrow> url e \<noteq> s))"
| "leaves k c (OpInvalidateOlderThan ageSeconds now) =
     (case map_of (cache c) k of None \<Rightarrow> True | Some e \<Rightarrow> now - timestamp e \<le> ageSeconds * 1000)"

fun undisturbed :: "string \<Rightarrow> 'a DOMCache \<Rightarrow> 'a cache_op list \<Rightarrow> bool" where
  "undisturbed k c [] = True"
| "undisturbed k c (op # ops) = (leaves k c op \<and> undisturbed k (apply_op c op) ops)"

text \<open>
  What a \<^verbatim>\<open>Map\<close> guarantees of the association list, and what \<^verbatim>\<open>generateKey\<close>
  guarantees of the keys: no key twice, no empty key.
\<close>

definition entries_ok :: "(string \<times> 'a) list \<Rightarrow> bool" where
  "entries_ok al = (distinct (map fst al) \<and> (\<forall>p\<in>set al. fst p \<noteq> []))"

definition cache_inv :: "'a DOMCache \<Rightarrow> bool" where
  "cache_inv c = entries_ok (cache c)"


section \<open>Example documents and calls\<close>

definition defaultParams :: QueryParams where
  \<comment> \<open>The defaults of the input schema, with neither selector nor search text.\<close>
  "defaultParams =
     \<lparr>q_selector = None, q_searchText = None, q_limit = 20, q_offset = 0,
      includeAttributes = True, maxTextLength = 500, useCache = True, forceRefresh = False\<rparr>"

definition example_paragraph :: Element where
  "example_paragraph =
     \<lparr>tagName = ''P'', el_textContent = ''Please submit the form'',
      childNodes = [TextNode ''Please submit the form''], attributes = [],
      rectTop = 0, rectLeft = 0, rectWidth = 100, rectHeight = 20\<rparr>"

definition example_button :: Element where
  "example_button =
     \<lparr>tagName = ''BUTTON'', el_textContent = ''Submit'',
      childNodes = [TextNode ''Submit''], attributes = [(''type'', ''submit'')],
      rectTop = 20, rectLeft = 0, rectWidth = 100, rectHeight = 20\<rparr>"

definition example_span :: Element where
  \<comment> \<open>A hidden span with the direct text \<open>a\<close> and the title \<open>a.b\<close>.\<close>
  "example_span =
     \<lparr>tagName = ''SPAN'', el_textContent = ''a'',
      childNodes = [TextNode ''a''], attributes = [(''title'', ''a.b'')],
      rectTop = 0, rectLeft = 0, rectWidth = 0, rectHeight = 0\<rparr>"

definition example_page :: Page where
  \<comment> \<open>The paragraph comes before the button; the selector \<open>li\<close> finds nothing.\<close>
  "example_page =
     \<lparr>allElements = [example_paragraph, example_button],
      querySelectorAll = (\<lambda>sel. Inr []),
      innerWidth = 800, innerHeight = 600, pageNow = 5000\<rparr>"

definition empty_result :: "string option \<Rightarrow> QueryResult" where
  "empty_result st =
     \<lparr>result_searchText = st, totalCount = 0, result_offset = 0,
      result_limit = 20, returnedCount = 0, hasMore = False, elements = []\<rparr>"

definition failingEvaluate :: "Script \<Rightarrow> error + QueryResult" where
  \<comment> \<open>A page whose evaluation throws, whatever the script.\<close>
  "failingEvaluate js = Inl (EvaluationFailure ''Execution context was destroyed'')"

section \<open>Properties of the cache\<close>

lemma map_of_update_same: "map_of (AList.update k v al) k = Some v"
  by (simp add: update_conv')

lemma maxAge_set [simp]: "maxAge (DOMCache_set c u params d now) = maxAge c"
  by (simp add: DOMCache_set_def Let_def split: option.splits)

lemma maxEntries_set [simp]: "maxEntries (DOMCache_set c u params d now) = maxEntries c"
  by (simp add: DOMCache_set_def Let_def split: option.splits)

lemma map_of_set_key:
  "map_of (cache (DOMCache_set c u params d now)) (generateKey u params)
     = Some \<lparr>data = d, timestamp = now, url = u,
              entry_selector = selector params, entry_searchText = searchText params\<rparr>"
  by (simp add: DOMCache_set_def Let_def map_of_update_same)

lemma get_fresh:
  "map_of (cache c) (generateKey u params) = Some e \<Longrightarrow> now - timestamp e \<le> maxAge c \<Longrightarrow>
   DOMCache_get c u params now = (Some (data e), c)"
  by (simp add: DOMCache_get_def)

lemma get_stale:
  "map_of (cache c) (generateKey u params) = Some e \<Longrightarrow> now - timestamp e > maxAge c \<Longrightarrow>
   DOMCache_get c u params now = (None, c\<lparr>cache := AList.delete (generateKey u params) (cache c)\<rparr>)"
  by (simp add: DOMCache_get_def)

lemma get_after_set_fresh:
  "now' - now \<le> maxAge c \<Longrightarrow>
   DOMCache_get (DOMCache_set c u params d now) u params now'
     = (Some d, DOMCache_set c u params d now)"
  by (simp add: DOMCache_get_def map_of_set_key)

lemma get_after_set_stale:
  "now' - now > maxAge c \<Longrightarrow>
   DOMCache_get (DOMCache_set c u params d now) u params now'
     = (None, (DOMCache_set c u params d now)
          \<lparr>cache := AList.delete (generateKey u params) (cache (DOMCache_set c u params d now))\<rparr>)"
  by (simp add: DOMCache_get_def map_of_set_key)

text \<open>
  C2.  Lazy expiration: when the key of a \<^verbatim>\<open>get\<close> holds an entry whose age is
  strictly greater than \<^verbatim>\<open>maxAge\<close>, the \<^verbatim>\<open>get\<close> returns absent and deletes that
  key (every other key keeps its entry); when the age is strictly less, it returns the
  payload and leaves the cache alone.  An entry set at time \<open>T\<close> is returned at
  \<open>T + maxAge - 1\<close>, and is absent and removed at \<open>T + maxAge + 1\<close>.
\<close>

theorem get_expires_lazily:
  "(map_of (cache c) (generateKey u params) = Some e \<longrightarrow>
      (now - timestamp e > maxAge c \<longrightarrow>
         DOMCache_get c u params now
           = (None, c\<lparr>cache := AList.delete (generateKey u params) (cache c)\<rparr>) \<and>
         map_of (cache (snd (DOMCache_get c u params now)))
           = (map_of (cache c)) (generateKey u params := None)) \<and>
      (now - timestamp e < maxAge c \<longrightarrow>
         DOMCache_get c u params now = (Some (data e), c))) \<and>
   DOMCache_get (DOMCache_set c u params d T) u params (T + maxAge c - 1)
     = (Some d, DOMCache_set c u params d T) \<and>
   fst (DOMCache_get (DOMCache_set c u params d T) u params (T + maxAge c + 1)) = None \<and>
   map_of (cache (snd (DOMCache_get (DOMCache_set c u params d T) u params (T + maxAge c + 1))))
     (generateKey u params) = None"
proof -
  let ?c = "DOMCache_set c u params d T"
  have a: "DOMCache_get ?c u params (T + maxAge c - 1) = (Some d, ?c)"
    by (rule get_after_set_fresh) simp
  have b: "DOMCache_get ?c u params (T + maxAge c + 1)
             = (None, ?c\<lparr>cache := AList.delete (generateKey u params) (cache ?c)\<rparr>)"
    by (rule get_after_set_stale) simp
  show ?thesis
    unfolding a b by (auto simp add: get_fresh get_stale delete_conv')
qed

theorem get_expires_lazily_witness:
  "map_of (cache \<lparr>cache = [(generateKey ''u'' \<lparr>selector = Some ''li'', searchText = None,
                                    offset = None, limit = None\<rparr>,
                        \<lparr>data = (7::nat), timestamp = 1000, url = ''u'',
                         entry_selector = Some ''li'', entry_searchText = None\<rparr>)],
                 maxAge = 60000, maxEntries = 100\<rparr>)
     (generateKey ''u'' \<lparr>selector = Some ''li'', searchText = None, offset = None, limit = None\<rparr>)
     = Some \<lparr>data = (7::nat), timestamp = 1000, url = ''u'',
              entry_selector = Some ''li'', entry_searchText = None\<rparr> \<and>
   DOMCache_get \<lparr>cache = [(generateKey ''u'' \<lparr>selector = Some ''li'', searchText = None,
                                    offset = None, limit = None\<rparr>,
                        \<lparr>data = (7::nat), timestamp = 1000, url = ''u'',
                         entry_selector = Some ''li'', entry_searchText = None\<rparr>)],
                 maxAge = 60000, maxEntries = 100\<rparr>
       ''u'' \<lparr>selector = Some ''li'', searchText = None, offset = None, limit = None\<rparr> 61001
     = (None, \<lparr>cache = [], maxAge = 60000, maxEntries = 100\<rparr>) \<and>
   DOMCache_get \<lparr>cache = [(generateKey ''u'' \<lparr>selector = Some ''li'', searchText = None,
                                    offset = None, limit = None\<rparr>,
                        \<lparr>data = (7::nat), timestamp = 1000, url = ''u'',
                         entry_selector = Some ''li'', entry_searchText = None\<rparr>)],
                 maxAge = 60000, maxEntries = 100\<rparr>
       ''u'' \<lparr>selector = Some ''li'', searchText = None, offset = None, limit = None\<rparr> 60999
     = (Some 7, \<lparr>cache = [(generateKey ''u'' \<lparr>selector = Some ''li'', searchText = None,
                                    offset = None, limit = None\<rparr>,
                        \<lparr>data = (7::nat), timestamp = 1000, url = ''u'',
                         entry_selector = Some ''li'', entry_searchText = None\<rparr>)],
                 maxAge = 60000, maxEntries = 100\<rparr>)"
  using get_expires_lazily
    [of "\<lparr>cache = [(generateKey ''u'' \<lparr>selector = Some ''li'', searchText = None,
                                    offset = None, limit = None\<rparr>,
                        \<lparr>data = (7::nat), timestamp = 1000, url = ''u'',
                         entry_selector = Some ''li'', entry_searchText = None\<rparr>)],
                 maxAge = 60000, maxEntries = 100\<rparr>"
        "''u''" "\<lparr>selector = Some ''li'', searchText = None, offset = None, limit = None\<rparr>"
        "\<lparr>data = (7::nat), timestamp = 1000, url = ''u'',
                         entry_selector = Some ''li'', entry_searchText = None\<rparr>" 61001]
    get_expires_lazily
    [of "\<lparr>cache = [(generateKey ''u'' \<lparr>selector = Some ''li'', searchText = None,
                                    offset = None, limit = None\<rparr>,
                        \<lparr>data = (7::nat), timestamp = 1000, url = ''u'',
                         entry_selector = Some ''li'', entry_searchText = None\<rparr>)],
                 maxAge = 60000, maxEntries = 100\<rparr>"
        "''u''" "\<lparr>selector = Some ''li'', searchText = None, offset = None, limit = None\<rparr>"
        "\<lparr>data = (7::nat), timestamp = 1000, url = ''u'',
                         entry_selector = Some ''li'', entry_searchText = None\<rparr>" 60999]
  by simp

text \<open>
  C9.  The key is not injective.  The page identity \<open>a:\<close> with no selector and no
  search text has the key of the page identity \<open>a\<close> with the search text \<open>:\<close>; a
  limit of 0 has the key of the limit 20 (and an absent offset that of the offset 0); and
  a \<^verbatim>\<open>get\<close> under the first shape returns what was stored under the second.
\<close>

theorem generateKey_not_injective:
  "generateKey ''a:'' \<lparr>selector = None, searchText = None, offset = None, limit = None\<rparr>
     = generateKey ''a'' \<lparr>selector = None, searchText = Some '':'', offset = None, limit = None\<rparr> \<and>
   generateKey u (params\<lparr>limit := Some 0\<rparr>) = generateKey u (params\<lparr>limit := Some 20\<rparr>) \<and>
   generateKey u (params\<lparr>limit := None\<rparr>) = generateKey u (params\<lparr>limit := Some 20\<rparr>) \<and>
   generateKey u (params\<lparr>offset := None\<rparr>) = generateKey u (params\<lparr>offset := Some 0\<rparr>) \<and>
   \<not> inj (\<lambda>(u, params). generateKey u params) \<and>
   DOMCache_get
     (DOMCache_set (DOMCache_new 60 100) ''a''
        \<lparr>selector = None, searchText = Some '':'', offset = None, limit = None\<rparr> d 1000)
     ''a:'' \<lparr>selector = None, searchText = None, offset = None, limit = None\<rparr> 1000
   = (Some d,
      DOMCache_set (DOMCache_new 60 100) ''a''
        \<lparr>selector = None, searchText = Some '':'', offset = None, limit = None\<rparr> d 1000)"
proof -
  let ?p1 = "\<lparr>selector = None, searchText = None, offset = None, limit = None\<rparr>"
  let ?p2 = "\<lparr>selector = None, searchText = Some '':'', offset = None, limit = None\<rparr>"
  have k: "generateKey ''a:'' ?p1 = generateKey ''a'' ?p2"
    by (simp add: generateKey_def strOr_def)
  have ninj: "\<not> inj (\<lambda>(u, params). generateKey u params)"
  proof
    assume "inj (\<lambda>(u, params). generateKey u params)"
    from injD [OF this, of "(''a:'', ?p1)" "(''a'', ?p2)"] k show False by simp
  qed
  have hit: "DOMCache_get (DOMCache_set (DOMCache_new 60 100) ''a'' ?p2 d 1000) ''a:'' ?p1 1000
             = (Some d, DOMCache_set (DOMCache_new 60 100) ''a'' ?p2 d 1000)"
    by (simp add: DOMCache_get_def k map_of_set_key DOMCache_new_def)
  show ?thesis
    using k ninj hit by (simp add: generateKey_def numOr_def)
qed

lemma deleteKeys_filter: "deleteKeys ks al = filter (\<lambda>(k, v). k \<notin> set ks) al"
  unfolding deleteKeys_def
proof (induction ks arbitrary: al)
  case Nil
  then show ?case by simp
next
  case (Cons k ks)
  show ?case
    by (simp add: Cons.IH) (auto simp: AList.delete_eq intro!: filter_cong)
qed

lemma deleteKeys_distinct:
  assumes "distinct (map fst al)"
  shows "deleteKeys (map fst (filter P al)) al = filter (\<lambda>x. \<not> P x) al"
proof -
  have "\<And>x. x \<in> set al \<Longrightarrow> (fst x \<in> fst ` {y \<in> set al. P y}) = P x"
  proof -
    fix x assume x: "x \<in> set al"
    show "(fst x \<in> fst ` {y \<in> set al. P y}) = P x"
    proof
      assume "fst x \<in> fst ` {y \<in> set al. P y}"
      then obtain y where y: "y \<in> set al" "P y" "fst y = fst x" by auto
      from assms x y have "y = x"
        by (metis eq_key_imp_eq_value prod.collapse)
      with y show "P x" by simp
    next
      assume "P x" with x show "fst x \<in> fst ` {y \<in> set al. P y}" by auto
    qed
  qed
  then show ?thesis
    unfolding deleteKeys_filter by (auto intro!: filter_cong simp: case_prod_unfold)
qed

lemma generateKey_nonempty: "generateKey u params \<noteq> []"
  by (simp add: generateKey_def)







lemma cache_inv_new: "cache_inv (DOMCache_new a m)"
  by (simp add: cache_inv_def entries_ok_def DOMCache_new_def)

lemma entries_ok_delete: "entries_ok al \<Longrightarrow> entries_ok (AList.delete k al)"
  unfolding entries_ok_def by (simp add: distinct_delete) (simp add: AList.delete_eq)

lemma entries_ok_deleteKeys: "entries_ok al \<Longrightarrow> entries_ok (deleteKeys ks al)"
  unfolding entries_ok_def by (simp add: deleteKeys_filter distinct_map_filter)

lemma entries_ok_update:
  assumes "entries_ok al" and "k \<noteq> []"
  shows "entries_ok (AList.update k v al)"
proof -
  have "fst p \<noteq> []" if "p \<in> set (AList.update k v al)" for p
  proof -
    from that have "fst p \<in> fst ` set (AList.update k v al)" by (rule imageI)
    then have "fst p = k \<or> fst p \<in> fst ` set al" by (simp add: dom_update)
    with assms show ?thesis by (auto simp: entries_ok_def)
  qed
  with assms show ?thesis by (simp add: entries_ok_def distinct_update)
qed

lemma cache_set:
  "cache (DOMCache_set c u params d now) =
     AList.update (generateKey u params)
       \<lparr>data = d, timestamp = now, url = u,
        entry_selector = selector params, entry_searchText = searchText params\<rparr>
       (if real (length (cache c)) \<ge> maxEntries c \<and> map_of (cache c) (generateKey u params) = None
        then (case findOldestEntry c of
                None \<Rightarrow> cache c
              | Some oldestKey \<Rightarrow>
                  if oldestKey \<noteq> [] then AList.delete oldestKey (cache c) else cache c)
        else cache c)"
  by (simp add: DOMCache_set_def Let_def split: option.splits)

lemma cache_get:
  "cache (snd (DOMCache_get c u params now)) = cache c \<or>
   cache (snd (DOMCache_get c u params now)) = AList.delete (generateKey u params) (cache c)"
  by (simp add: DOMCache_get_def Let_def split: option.splits)

lemma cache_inv_get: "cache_inv c \<Longrightarrow> cache_inv (snd (DOMCache_get c u params now))"
  unfolding cache_inv_def using cache_get [of c u params now] entries_ok_delete [of "cache c"]
  by auto

lemma cache_inv_set: "cache_inv c \<Longrightarrow> cache_inv (DOMCache_set c u params d now)"
  unfolding cache_inv_def cache_set
  by (rule entries_ok_update) (auto simp: generateKey_nonempty entries_ok_delete split: option.splits)

lemma cache_inv_invalidate: "cache_inv c \<Longrightarrow> cache_inv (DOMCache_invalidate c u)"
  unfolding cache_inv_def using entries_ok_deleteKeys [of "cache c"]
  by (simp add: DOMCache_invalidate_def entries_ok_def split: option.splits)

lemma cache_inv_invalidateOlderThan:
  "cache_inv c \<Longrightarrow> cache_inv (DOMCache_invalidateOlderThan c ageSeconds now)"
  unfolding cache_inv_def using entries_ok_deleteKeys [of "cache c"]
  by (simp add: DOMCache_invalidateOlderThan_def Let_def)

lemma cache_inv_apply_op: "cache_inv c \<Longrightarrow> cache_inv (apply_op c op)"
  by (cases op)
    (simp_all add: cache_inv_get cache_inv_set cache_inv_invalidate cache_inv_invalidateOlderThan)

lemma cache_inv_run_ops: "cache_inv c \<Longrightarrow> cache_inv (run_ops ops c)"
  unfolding run_ops_def by (induction ops arbitrary: c) (simp_all add: cache_inv_apply_op)










lemma maxEntries_get [simp]: "maxEntries (snd (DOMCache_get c u params now)) = maxEntries c"
  by (simp add: DOMCache_get_def Let_def split: option.splits)

lemma maxEntries_invalidate [simp]: "maxEntries (DOMCache_invalidate c u) = maxEntries c"
  by (simp add: DOMCache_invalidate_def split: option.splits)

lemma maxEntries_invalidateOlderThan [simp]:
  "maxEntries (DOMCache_invalidateOlderThan c ageSeconds now) = maxEntries c"
  by (simp add: DOMCache_invalidateOlderThan_def Let_def)

lemma maxEntries_apply_op [simp]: "maxEntries (apply_op c op) = maxEntries c"
  by (cases op) simp_all

lemma maxEntries_run_ops [simp]: "maxEntries (run_ops ops c) = maxEntries c"
  unfolding run_ops_def by (induction ops arbitrary: c) simp_all





lemma map_of_filter_distinct:
  "distinct (map fst al) \<Longrightarrow> map_of al k = Some e \<Longrightarrow>
   map_of (filter P al) k = (if P (k, e) then Some e else None)"
proof (induction al)
  case Nil
  then show ?case by simp
next
  case (Cons a al)
  obtain k' e' where a: "a = (k', e')" by (cases a)
  show ?case
  proof (cases "k' = k")
    case True
    from Cons.prems a True have "k \<notin> fst ` set (filter P al)" by auto
    then have "map_of (filter P al) k = None" by (simp add: map_of_eq_None_iff)
    with Cons.prems a True show ?thesis by auto
  next
    case False
    with Cons a show ?thesis by auto
  qed
qed

text \<open>
  C8 (amended to a non-empty url).  \<^verbatim>\<open>invalidate(url)\<close> keeps exactly the entries whose
  stored url differs, in their order: a key that held an entry of that url is absent
  afterwards, every other key keeps its entry, and a \<^verbatim>\<open>get\<close> answers accordingly.
  \<^verbatim>\<open>invalidate()\<close>, and likewise \<^verbatim>\<open>invalidate('')\<close>, empties the store, after which
  the size is 0 and a second call changes nothing.  Both are total functions of the cache: there is no error to return.
\<close>

theorem invalidate_by_url:
  assumes "distinct (map fst (cache c))" and "v \<noteq> []"
  shows "cache (DOMCache_invalidate c (Some v)) = filter (\<lambda>(key, entry). url entry \<noteq> v) (cache c) \<and>
     (\<forall>k e. map_of (cache c) k = Some e \<longrightarrow>
        map_of (cache (DOMCache_invalidate c (Some v))) k = (if url e = v then None else Some e)) \<and>
     (\<forall>u params now e. map_of (cache c) (generateKey u params) = Some e \<longrightarrow>
        fst (DOMCache_get (DOMCache_invalidate c (Some v)) u params now) =
          (if url e = v then None else fst (DOMCache_get c u params now))) \<and>
     maxAge (DOMCache_invalidate c (Some v)) = maxAge c \<and>
     maxEntries (DOMCache_invalidate c (Some v)) = maxEntries c \<and>
     DOMCache_invalidate c None = c\<lparr>cache := []\<rparr> \<and>
     DOMCache_invalidate c (Some []) = c\<lparr>cache := []\<rparr> \<and>
     DOMCache_size (DOMCache_invalidate c None) = 0 \<and>
     DOMCache_size (DOMCache_invalidate c (Some [])) = 0 \<and>
     DOMCache_invalidate (DOMCache_invalidate c (Some [])) (Some []) = DOMCache_invalidate c (Some []) \<and>
     DOMCache_invalidate (DOMCache_invalidate c None) None = DOMCache_invalidate c None"
proof -
  have f: "cache (DOMCache_invalidate c (Some v)) = filter (\<lambda>(key, entry). url entry \<noteq> v) (cache c)"
    using assms(2) deleteKeys_distinct [OF assms(1), of "\<lambda>(key, entry). url entry = v"]
    by (simp add: DOMCache_invalidate_def case_prod_unfold)
  have g: "map_of (cache (DOMCache_invalidate c (Some v))) k = (if url e = v then None else Some e)"
    if "map_of (cache c) k = Some e" for k e
    unfolding f using map_of_filter_distinct [OF assms(1) that, of "\<lambda>(key, entry). url entry \<noteq> v"]
    by simp
  have ma: "maxAge (DOMCache_invalidate c (Some v)) = maxAge c"
    by (simp add: DOMCache_invalidate_def)
  have h: "fst (DOMCache_get (DOMCache_invalidate c (Some v)) u params now) =
          (if url e = v then None else fst (DOMCache_get c u params now))"
    if "map_of (cache c) (generateKey u params) = Some e" for u params now e
    using g [OF that] that by (simp add: DOMCache_get_def ma)
  from f g h ma show ?thesis
    by (simp add: DOMCache_invalidate_def DOMCache_size_def)
qed

text \<open>
  C10.  With \<^verbatim>\<open>olderThanSeconds\<close> 0 the clear tool does what it does without the
  parameter: it clears by url when a url is given and clears everything otherwise.  That
  is not the prune by age with threshold 0, which keeps an entry stored at the very
  moment of the call while the tool removes it.
\<close>

theorem clearCache_zero_seconds:
  "clearCache_handle \<lparr>cc_url = u, olderThanSeconds = Some 0\<rparr> now c
     = clearCache_handle \<lparr>cc_url = u, olderThanSeconds = None\<rparr> now c \<and>
   snd (clearCache_handle \<lparr>cc_url = u, olderThanSeconds = Some 0\<rparr> now c)
     = (if truthyStr u then DOMCache_invalidate c u else DOMCache_invalidate c None) \<and>
   snd (clearCache_handle \<lparr>cc_url = None, olderThanSeconds = Some 0\<rparr> 1000
          (DOMCache_set (DOMCache_new 60 100) ''u''
             \<lparr>selector = Some ''li'', searchText = None, offset = None, limit = None\<rparr> d 1000))
     = DOMCache_new 60 100 \<and>
   DOMCache_invalidateOlderThan
          (DOMCache_set (DOMCache_new 60 100) ''u''
             \<lparr>selector = Some ''li'', searchText = None, offset = None, limit = None\<rparr> d 1000) 0 1000
     = DOMCache_set (DOMCache_new 60 100) ''u''
             \<lparr>selector = Some ''li'', searchText = None, offset = None, limit = None\<rparr> d 1000 \<and>
   DOMCache_set (DOMCache_new 60 100) ''u''
             \<lparr>selector = Some ''li'', searchText = None, offset = None, limit = None\<rparr> d 1000
     \<noteq> DOMCache_new 60 100"
  by (simp add: clearCache_handle_def truthyNum_def truthyStr_def DOMCache_invalidate_def
      DOMCache_invalidateOlderThan_def DOMCache_set_def DOMCache_new_def deleteKeys_def Let_def
      findOldestEntry_def split: option.splits)

lemmas eval_defs = generateKey_def strOr_def numOr_def numberToString_def digits10.simps
  digitChar_def DOMCache_set_def DOMCache_get_def DOMCache_new_def findOldestEntry_def
  DOMCache_invalidate_def DOMCache_invalidateOlderThan_def DOMCache_size_def deleteKeys_def
  run_ops_def Let_def



text \<open>
  Nor does the bound hold at a capacity that is not an integer: with \<^verbatim>\<open>maxEntries\<close> 1.5
  the second \<^verbatim>\<open>set\<close> still finds room and the size is 2.
\<close>

lemma capacity_fraction_example:
  "\<not> real_of_int (DOMCache_size (run_ops
        [OpSet ''u'' \<lparr>selector = Some ''li'', searchText = None, offset = None, limit = None\<rparr> (1::nat) 100,
         OpSet ''u'' \<lparr>selector = Some ''a'', searchText = None, offset = None, limit = None\<rparr> 2 101]
        (DOMCache_new 60 (3 / 2))))
      \<le> maxEntries (DOMCache_new 60 (3 / 2) :: nat DOMCache)"
  by (simp add: eval_defs)

theorem invalidate_by_url_witness:
  "distinct (map fst (cache
      (DOMCache_set (DOMCache_set (DOMCache_new 60 100) ''x''
          \<lparr>selector = Some ''li'', searchText = None, offset = None, limit = None\<rparr> (1::nat) 100)
        ''y'' \<lparr>selector = Some ''li'', searchText = None, offset = None, limit = None\<rparr> 2 200))) \<and>
   ''x'' \<noteq> [] \<and>
   cache (DOMCache_invalidate
      (DOMCache_set (DOMCache_set (DOMCache_new 60 100) ''x''
          \<lparr>selector = Some ''li'', searchText = None, offset = None, limit = None\<rparr> (1::nat) 100)
        ''y'' \<lparr>selector = Some ''li'', searchText = None, offset = None, limit = None\<rparr> 2 200)
      (Some ''x''))
   = [(''y:li::0:20'', \<lparr>data = 2, timestamp = 200, url = ''y'',
                          entry_selector = Some ''li'', entry_searchText = None\<rparr>)]"
proof -
  let ?c = "DOMCache_set (DOMCache_set (DOMCache_new 60 100) ''x''
          \<lparr>selector = Some ''li'', searchText = None, offset = None, limit = None\<rparr> (1::nat) 100)
        ''y'' \<lparr>selector = Some ''li'', searchText = None, offset = None, limit = None\<rparr> 2 200"
  have d: "distinct (map fst (cache ?c))" by (simp add: eval_defs)
  have n: "''x'' \<noteq> []" by simp
  from invalidate_by_url [OF d n]
  have "cache (DOMCache_invalidate ?c (Some ''x'')) = filter (\<lambda>(key, entry). url entry \<noteq> ''x'') (cache ?c)"
    by blast
  also have "\<dots> = [(''y:li::0:20'', \<lparr>data = 2, timestamp = 200, url = ''y'',
                          entry_selector = Some ''li'', entry_searchText = None\<rparr>)]"
    by (simp add: eval_defs)
  finally show ?thesis using d n by simp
qed

text \<open>
  C8 as stated fails at the empty url, which \<^verbatim>\<open>if (url)\<close> takes for an absent one:
  \<^verbatim>\<open>invalidate('')\<close> removes an entry stored for the page \<open>x\<close>.
\<close>

theorem invalidate_empty_url_counterexample:
  "map_of (cache (DOMCache_set (DOMCache_new 60 100) ''x''
          \<lparr>selector = Some ''li'', searchText = None, offset = None, limit = None\<rparr> (1::nat) 100))
      ''x:li::0:20''
     = Some \<lparr>data = 1, timestamp = 100, url = ''x'',
              entry_selector = Some ''li'', entry_searchText = None\<rparr> \<and>
   ''x'' \<noteq> [] \<and>
   map_of (cache (DOMCache_invalidate
        (DOMCache_set (DOMCache_new 60 100) ''x''
          \<lparr>selector = Some ''li'', searchText = None, offset = None, limit = None\<rparr> (1::nat) 100)
        (Some []))) ''x:li::0:20'' = None"
  by (simp add: eval_defs)

section \<open>A get after a set, with operations in between\<close>

lemma maxAge_get [simp]: "maxAge (snd (DOMCache_get c u params now)) = maxAge c"
  by (simp add: DOMCache_get_def Let_def split: option.splits)

lemma maxAge_invalidate [simp]: "maxAge (DOMCache_invalidate c u) = maxAge c"
  by (simp add: DOMCache_invalidate_def split: option.splits)

lemma maxAge_invalidateOlderThan [simp]:
  "maxAge (DOMCache_invalidateOlderThan c ageSeconds now) = maxAge c"
  by (simp add: DOMCache_invalidateOlderThan_def Let_def)

lemma maxAge_apply_op [simp]: "maxAge (apply_op c op) = maxAge c"
  by (cases op) simp_all

lemma maxAge_run_ops [simp]: "maxAge (run_ops ops c) = maxAge c"
  unfolding run_ops_def by (induction ops arbitrary: c) simp_all

lemma map_of_filter_keep:
  assumes "distinct (map fst al)" and "\<And>e. map_of al k = Some e \<Longrightarrow> P (k, e)"
  shows "map_of (filter P al) k = map_of al k"
proof (cases "map_of al k")
  case None
  then have "k \<notin> fst ` set (filter P al)" by (auto simp: map_of_eq_None_iff)
  then have "map_of (filter P al) k = None" by (simp add: map_of_eq_None_iff)
  with None show ?thesis by simp
next
  case (Some e)
  from map_of_filter_distinct [OF assms(1) Some, of P] assms(2) [OF Some] Some
  show ?thesis by simp
qed

lemma deleteKeys_keep:
  assumes "distinct (map fst al)" and "\<And>e. map_of al k = Some e \<Longrightarrow> \<not> P (k, e)"
  shows "map_of (deleteKeys (map fst (filter P al)) al) k = map_of al k"
  unfolding deleteKeys_distinct [OF assms(1)]
  by (rule map_of_filter_keep [OF assms(1)]) (rule assms(2))

lemma leaves_preserves:
  assumes inv: "cache_inv c" and lv: "leaves k c op"
  shows "map_of (cache (apply_op c op)) k = map_of (cache c) k"
proof (cases op)
  case (OpGet u params now)
  with lv show ?thesis
    by (auto simp: DOMCache_get_def Let_def delete_conv' split: option.splits)
next
  case (OpSet u params d now)
  with lv show ?thesis
    by (auto simp: cache_set update_conv' delete_conv' split: option.splits)
next
  case (OpInvalidate v)
  with lv obtain s where v: "v = Some s" and s: "s \<noteq> []"
    and keep: "\<And>e. map_of (cache c) k = Some e \<Longrightarrow> url e \<noteq> s"
    by (cases v) (auto split: option.splits)
  from inv have d: "distinct (map fst (cache c))" by (simp add: cache_inv_def entries_ok_def)
  have "map_of (deleteKeys (map fst (filter (\<lambda>(key, entry). url entry = s) (cache c))) (cache c)) k
          = map_of (cache c) k"
    by (rule deleteKeys_keep [OF d]) (simp add: keep)
  with OpInvalidate v s show ?thesis by (simp add: DOMCache_invalidate_def)
next
  case (OpInvalidateOlderThan ageSeconds now)
  with lv have keep: "\<And>e. map_of (cache c) k = Some e \<Longrightarrow> \<not> ageSeconds * 1000 < now - timestamp e"
    by (auto split: option.splits)
  from inv have d: "distinct (map fst (cache c))" by (simp add: cache_inv_def entries_ok_def)
  have "map_of (deleteKeys
            (map fst (filter (\<lambda>(key, entry). now - timestamp entry > ageSeconds * 1000) (cache c)))
            (cache c)) k
          = map_of (cache c) k"
    by (rule deleteKeys_keep [OF d]) (simp add: keep)
  with OpInvalidateOlderThan show ?thesis by (simp add: DOMCache_invalidateOlderThan_def Let_def)
qed

lemma undisturbed_preserves:
  "cache_inv c \<Longrightarrow> undisturbed k c ops \<Longrightarrow> map_of (cache (run_ops ops c)) k = map_of (cache c) k"
proof (induction ops arbitrary: c)
  case Nil
  then show ?case by (simp add: run_ops_def)
next
  case (Cons op ops)
  from Cons.prems have lv: "leaves k c op" and rest: "undisturbed k (apply_op c op) ops"
    by simp_all
  from Cons.prems(1) have "cache_inv (apply_op c op)" by (rule cache_inv_apply_op)
  from Cons.IH [OF this rest] leaves_preserves [OF Cons.prems(1) lv]
  show ?case by (simp add: run_ops_def)
qed

text \<open>
  C1 (amended).  The key is a function of the page identity and the shape alone.  Let
  the cache be in any state reached from a new cache by cache operations.  After a
  \<^verbatim>\<open>set\<close>, followed by any operations that leave the entry under its key alone, a
  \<^verbatim>\<open>get\<close> of the same page identity and shape at a time when no more than \<^verbatim>\<open>maxAge\<close>
  milliseconds have passed since the \<^verbatim>\<open>set\<close> returns the stored payload and changes
  nothing.  With no operation in between this is the \<^verbatim>\<open>get\<close> that directly follows the
  \<^verbatim>\<open>set\<close>.
\<close>

theorem get_after_set_undisturbed:
  assumes "c = run_ops ops0 (DOMCache_new a m)"
    and "undisturbed (generateKey u params) (DOMCache_set c u params d now) ops"
    and "now' - now \<le> maxAge c"
  shows "DOMCache_get (run_ops ops (DOMCache_set c u params d now)) u params now'
           = (Some d, run_ops ops (DOMCache_set c u params d now)) \<and>
         DOMCache_get (DOMCache_set c u params d now) u params now'
           = (Some d, DOMCache_set c u params d now)"
proof -
  let ?c = "DOMCache_set c u params d now"
  let ?e = "\<lparr>data = d, timestamp = now, url = u,
              entry_selector = selector params, entry_searchText = searchText params\<rparr>"
  have "cache_inv c"
    unfolding assms(1) by (rule cache_inv_run_ops [OF cache_inv_new])
  then have "cache_inv ?c" by (rule cache_inv_set)
  from undisturbed_preserves [OF this assms(2)]
  have "map_of (cache (run_ops ops ?c)) (generateKey u params) = Some ?e"
    by (simp add: map_of_set_key)
  from get_fresh [OF this, of now'] assms(3)
  have "DOMCache_get (run_ops ops ?c) u params now' = (Some d, run_ops ops ?c)" by simp
  moreover from assms(3) have "DOMCache_get ?c u params now' = (Some d, ?c)"
    by (rule get_after_set_fresh)
  ultimately show ?thesis by simp
qed

theorem get_after_set_undisturbed_witness:
  "(DOMCache_new 60 100 :: nat DOMCache) = run_ops [] (DOMCache_new 60 100) \<and>
   undisturbed
     (generateKey ''u'' \<lparr>selector = Some ''li'', searchText = None, offset = Some 0, limit = Some 20\<rparr>)
     (DOMCache_set (DOMCache_new 60 100) ''u''
        \<lparr>selector = Some ''li'', searchText = None, offset = Some 0, limit = Some 20\<rparr> (7::nat) 1000)
     [OpSet ''u'' \<lparr>selector = Some ''a'', searchText = None, offset = Some 0, limit = Some 20\<rparr> 8 1001,
      OpGet ''u'' \<lparr>selector = Some ''a'', searchText = None, offset = Some 0, limit = Some 20\<rparr> 1002,
      OpInvalidate (Some ''v''),
      OpInvalidateOlderThan 30 1003] \<and>
   (1059::int) - 1000 \<le> maxAge (DOMCache_new 60 100 :: nat DOMCache) \<and>
   fst (DOMCache_get
     (run_ops
        [OpSet ''u'' \<lparr>selector = Some ''a'', searchText = None, offset = Some 0, limit = Some 20\<rparr> 8 1001,
         OpGet ''u'' \<lparr>selector = Some ''a'', searchText = None, offset = Some 0, limit = Some 20\<rparr> 1002,
         OpInvalidate (Some ''v''),
         OpInvalidateOlderThan 30 1003]
        (DOMCache_set (DOMCache_new 60 100) ''u''
           \<lparr>selector = Some ''li'', searchText = None, offset = Some 0, limit = Some 20\<rparr> (7::nat) 1000))
     ''u'' \<lparr>selector = Some ''li'', searchText = None, offset = Some 0, limit = Some 20\<rparr> 1059)
   = Some 7"
proof -
  let ?pA = "\<lparr>selector = Some ''li'', searchText = None, offset = Some 0, limit = Some 20\<rparr>"
  let ?pB = "\<lparr>selector = Some ''a'', searchText = None, offset = Some 0, limit = Some 20\<rparr>"
  let ?ops = "[OpSet ''u'' ?pB (8::nat) 1001, OpGet ''u'' ?pB 1002,
               OpInvalidate (Some ''v''), OpInvalidateOlderThan 30 1003]"
  have i: "(DOMCache_new 60 100 :: nat DOMCache) = run_ops [] (DOMCache_new 60 100)"
    by (simp add: run_ops_def)
  have u: "undisturbed (generateKey ''u'' ?pA)
             (DOMCache_set (DOMCache_new 60 100) ''u'' ?pA (7::nat) 1000) ?ops"
    by code_simp
  have a: "(1059::int) - 1000 \<le> maxAge (DOMCache_new 60 100 :: nat DOMCache)"
    by (simp add: DOMCache_new_def)
  from get_after_set_undisturbed [OF i u a]
  have "fst (DOMCache_get
          (run_ops ?ops (DOMCache_set (DOMCache_new 60 100) ''u'' ?pA (7::nat) 1000))
          ''u'' ?pA 1059) = Some 7"
    by simp
  with i u a show ?thesis by simp
qed

text \<open>
  C1 as stated fails when a \<^verbatim>\<open>set\<close> of another key comes in between and the store is
  full: with \<^verbatim>\<open>maxEntries\<close> 1 that \<^verbatim>\<open>set\<close> evicts the entry, and the \<^verbatim>\<open>get\<close> two
  milliseconds after the first \<^verbatim>\<open>set\<close> returns absent.
\<close>

theorem get_after_set_evicted_counterexample:
  "generateKey ''u'' \<lparr>selector = Some ''a'', searchText = None, offset = Some 0, limit = Some 20\<rparr>
     \<noteq> generateKey ''u'' \<lparr>selector = Some ''li'', searchText = None, offset = Some 0, limit = Some 20\<rparr> \<and>
   (1002::int) - 1000 \<le> maxAge (DOMCache_new 60 1 :: nat DOMCache) \<and>
   fst (DOMCache_get
     (run_ops
        [OpSet ''u'' \<lparr>selector = Some ''a'', searchText = None, offset = Some 0, limit = Some 20\<rparr> 8 1001]
        (DOMCache_set (DOMCache_new 60 1) ''u''
           \<lparr>selector = Some ''li'', searchText = None, offset = Some 0, limit = Some 20\<rparr> (7::nat) 1000))
     ''u'' \<lparr>selector = Some ''li'', searchText = None, offset = Some 0, limit = Some 20\<rparr> 1002)
   = None"
  by (simp add: eval_defs)

section \<open>Properties of the scored search\<close>



















section \<open>The text tiers\<close>

text \<open>
  C4 at the search text \<open>.\<close>, which the script puts into the regular expression
  unescaped.  The hidden span has the direct text \<open>a\<close>, which does not contain the
  search text, and matches only through its title \<open>a.b\<close>; its two bonuses are 0.  The
  test \<^verbatim>\<open>/\b.\b/i\<close> succeeds on \<open>a\<close>, so the script gives the span the score 30 of
  the whole-word tier, where C4 promises the bonuses alone.
\<close>

theorem unescaped_dot_scores_word_match:
  "isMatch ''.'' example_span \<and>
   \<not> str_includes (toLowerCase (directTextOf (childNodes example_span))) ''.'' \<and>
   visibleBonus example_span + semanticBonus example_span = 0 \<and>
   collectMatches fragmentRegExp ''.'' [example_span]
     = Inr [\<lparr>element = example_span, score = 30, match_text = ''a''\<rparr>]"
  by code_simp

lemma parseAtoms_plain:
  "list_all (\<lambda>ch. \<not> isSyntaxChar ch) st \<Longrightarrow> parseAtoms st = Some (map Literal st)"
proof (induction st)
  case Nil
  then show ?case by simp
next
  case (Cons ch st)
  have "isSyntaxChar (CHR ''.'')" by (simp add: isSyntaxChar_def)
  with Cons.prems have "ch \<noteq> CHR ''.''" by auto
  with Cons show ?case by simp
qed

lemma literal_match_lower:
  "list_all2 atomMatches (map Literal st) xs \<Longrightarrow> map lowerChar xs = map lowerChar st"
proof (induction st arbitrary: xs)
  case Nil
  then show ?case by simp
next
  case (Cons ch st)
  then obtain y ys where "xs = y # ys" by (cases xs) auto
  with Cons show ?case by simp
qed

lemma take_drop_includes:
  "take (length t) (drop i s) = t \<Longrightarrow> str_includes s t"
proof (induction s arbitrary: i)
  case Nil
  then show ?case by simp
next
  case (Cons x xs)
  show ?case
  proof (cases i)
    case 0
    with Cons.prems show ?thesis by (simp add: startsWith_def)
  next
    case (Suc j)
    with Cons.prems have "take (length t) (drop j xs) = t" by simp
    from Cons.IH [OF this] show ?thesis by simp
  qed
qed

lemma startsWith_includes: "startsWith s t \<Longrightarrow> str_includes s t"
  using take_drop_includes [of t 0 s] by (simp add: startsWith_def)

lemma plain_regexp_match_includes:
  assumes plain: "list_all (\<lambda>ch. \<not> isSyntaxChar ch) st" and lower: "toLowerCase st = st"
    and matched: "fragmentRegExp st dt = Inr True"
  shows "str_includes (toLowerCase dt) st"
proof -
  from matched parseAtoms_plain [OF plain]
  obtain i where "matchesAt (map Literal st) dt i"
    by (auto simp: fragmentRegExp_def list_ex_iff)
  then have "list_all2 atomMatches (map Literal st) (take (length st) (drop i dt))"
    by (simp add: matchesAt_def)
  from literal_match_lower [OF this] lower
  have "take (length st) (drop i (toLowerCase dt)) = st"
    by (simp add: toLowerCase_def take_map drop_map)
  then show ?thesis by (rule take_drop_includes)
qed

text \<open>
  For a search text without syntax characters the regular expression is the text itself,
  and the tiers are as the specification lists them: exactly one of 100, 50, 30, 10 when
  the direct text contains the search text, and none (a text score of 0) when it does
  not, as for an element that matches through an attribute alone.
\<close>

lemma plain_text_tiers:
  assumes plain: "list_all (\<lambda>ch. \<not> isSyntaxChar ch) st" and lower: "toLowerCase st = st"
  shows "\<exists>tier. textScore fragmentRegExp st dt = Inr tier \<and>
           (tier = 100 \<or> tier = 50 \<or> tier = 30 \<or> tier = 10 \<or> tier = 0) \<and>
           (tier = 0) = (\<not> str_includes (toLowerCase dt) st)"
proof -
  from parseAtoms_plain [OF plain] obtain b where re: "fragmentRegExp st dt = Inr b"
    by (simp add: fragmentRegExp_def)
  show ?thesis
  proof (cases "toLowerCase dt = st")
    case True
    then have "str_includes (toLowerCase dt) st"
      using take_drop_includes [of st 0 st] by simp
    with True show ?thesis by (simp add: textScore_def)
  next
    case ne: False
    show ?thesis
    proof (cases "startsWith (toLowerCase dt) st")
      case True
      with ne startsWith_includes [OF True] show ?thesis by (simp add: textScore_def)
    next
      case ns: False
      show ?thesis
      proof (cases b)
        case True
        with re plain_regexp_match_includes [OF plain lower] have "str_includes (toLowerCase dt) st"
          by simp
        with ne ns re True show ?thesis by (simp add: textScore_def)
      next
        case False
        with ne ns re show ?thesis by (simp add: textScore_def)
      qed
    qed
  qed
qed

section \<open>The handler and the cache\<close>

text \<open>
  When neither a selector nor a search text is given and the cache is bypassed or has no
  fresh entry under the key of the call, the handler fails with \<open>InvalidArgument\<close>; the
  cache is then as the preliminary \<^verbatim>\<open>domCache.get\<close> left it.
\<close>

lemma handle_neither_supplied:
  assumes "\<not> truthyStr (q_selector params)" and "\<not> truthyStr (q_searchText params)"
    and "useCache params \<and> \<not> forceRefresh params \<longrightarrow>
         fst (DOMCache_get c u (queryShape params) tGet) = None"
  shows "fst (queryDom_handle evaluate u tGet tHit tSet params c) = Inl InvalidArgument"
    and "snd (queryDom_handle evaluate u tGet tHit tSet params c)
           = (if useCache params \<and> \<not> forceRefresh params
              then snd (DOMCache_get c u (queryShape params) tGet) else c)"
  using assms
  by (auto simp: queryDom_handle_def buildScript_def Let_def split: prod.splits option.splits)

text \<open>
  C6 at a key collision.  On an empty cache the call with neither selector nor search
  text fails with \<open>InvalidArgument\<close>.  After a search for \<open>:\<close> on the page
  \<open>http://h/x\<close>, the same call on the page \<open>http://h/x:\<close> has the key of that search
  (both are \<open>http://h/x::::0:20\<close>): the handler looks into the cache before it looks at
  its arguments, and answers with the cached result of the other query.
\<close>

theorem neither_supplied_served_from_cache:
  "fst (queryDom_handle (evaluateScript fragmentRegExp example_page) ''http://h/x:''
          2000 2001 2002 defaultParams (DOMCache_new 60 100))
     = Inl InvalidArgument \<and>
   fst (queryDom_handle (evaluateScript fragmentRegExp example_page) ''http://h/x:''
          2000 2001 2002 defaultParams
          (snd (queryDom_handle (evaluateScript fragmentRegExp example_page) ''http://h/x''
                  1000 1001 1002 (defaultParams\<lparr>q_searchText := Some '':''\<rparr>)
                  (DOMCache_new 60 100))))
     = Inr \<lparr>result = empty_result (Some '':''), fromCache = True, cacheTimestamp = Some 2001\<rparr>"
  by code_simp

lemma map_of_delete_cases:
  "map_of (AList.delete k al) k' = None \<or> map_of (AList.delete k al) k' = map_of al k'"
  by (simp add: delete_conv')

text \<open>
  C7 (amended).  When the handler has a script to run and the page throws on it, then
  either the call was answered from the cache without evaluating, or the page's error is
  the result, unchanged.  Nothing is written: every key of the cache afterwards holds
  what it held before.  The cache is the one before the call, or, when the cache was
  consulted, that cache without the expired entry of the call's own key, which the
  preliminary \<^verbatim>\<open>domCache.get\<close> has deleted.
\<close>

theorem evaluation_failure_writes_nothing:
  assumes "buildScript params = Inr js" and "evaluate js = Inl err"
  shows
    "(fst (queryDom_handle evaluate u tGet tHit tSet params c) = Inl err \<or>
      (useCache params \<and> \<not> forceRefresh params \<and>
       (\<exists>r. DOMCache_get c u (queryShape params) tGet = (Some r, c) \<and>
            queryDom_handle evaluate u tGet tHit tSet params c
              = (Inr \<lparr>result = r, fromCache = True, cacheTimestamp = Some tHit\<rparr>, c)))) \<and>
     (snd (queryDom_handle evaluate u tGet tHit tSet params c) = c \<or>
      (useCache params \<and> \<not> forceRefresh params \<and>
       (\<exists>e. map_of (cache c) (generateKey u (queryShape params)) = Some e \<and>
            maxAge c < tGet - timestamp e) \<and>
       snd (queryDom_handle evaluate u tGet tHit tSet params c)
         = c\<lparr>cache := AList.delete (generateKey u (queryShape params)) (cache c)\<rparr>)) \<and>
     (\<forall>k. map_of (cache (snd (queryDom_handle evaluate u tGet tHit tSet params c))) k = None \<or>
          map_of (cache (snd (queryDom_handle evaluate u tGet tHit tSet params c))) k
            = map_of (cache c) k)"
proof (cases "useCache params \<and> \<not> forceRefresh params")
  case False
  with assms have "queryDom_handle evaluate u tGet tHit tSet params c = (Inl err, c)"
    by (auto simp: queryDom_handle_def)
  then show ?thesis by simp
next
  case uc: True
  show ?thesis
  proof (cases "map_of (cache c) (generateKey u (queryShape params))")
    case None
    then have "DOMCache_get c u (queryShape params) tGet = (None, c)"
      by (simp add: DOMCache_get_def)
    with assms uc have "queryDom_handle evaluate u tGet tHit tSet params c = (Inl err, c)"
      by (simp add: queryDom_handle_def)
    then show ?thesis by simp
  next
    case (Some e)
    show ?thesis
    proof (cases "maxAge c < tGet - timestamp e")
      case True
      with Some have "DOMCache_get c u (queryShape params) tGet
          = (None, c\<lparr>cache := AList.delete (generateKey u (queryShape params)) (cache c)\<rparr>)"
        by (simp add: DOMCache_get_def)
      with assms uc have "queryDom_handle evaluate u tGet tHit tSet params c
          = (Inl err, c\<lparr>cache := AList.delete (generateKey u (queryShape params)) (cache c)\<rparr>)"
        by (simp add: queryDom_handle_def)
      with uc Some True show ?thesis
        using map_of_delete_cases [of "generateKey u (queryShape params)" "cache c"] by simp
    next
      case False
      with Some have g: "DOMCache_get c u (queryShape params) tGet = (Some (data e), c)"
        by (simp add: DOMCache_get_def)
      with uc have "queryDom_handle evaluate u tGet tHit tSet params c
          = (Inr \<lparr>result = data e, fromCache = True, cacheTimestamp = Some tHit\<rparr>, c)"
        by (simp add: queryDom_handle_def)
      with uc g show ?thesis by simp
    qed
  qed
qed

theorem evaluation_failure_writes_nothing_witness:
  "buildScript (defaultParams\<lparr>q_selector := Some ''li''\<rparr>) = Inr (SelectorScript ''li'' 0 20 500 True) \<and>
   failingEvaluate (SelectorScript ''li'' 0 20 500 True)
     = Inl (EvaluationFailure ''Execution context was destroyed'') \<and>
   queryDom_handle failingEvaluate ''u'' 2000 2001 2002 (defaultParams\<lparr>q_selector := Some ''li''\<rparr>)
       (DOMCache_new 60 100)
     = (Inl (EvaluationFailure ''Execution context was destroyed''), DOMCache_new 60 100)"
proof -
  have b: "buildScript (defaultParams\<lparr>q_selector := Some ''li''\<rparr>)
             = Inr (SelectorScript ''li'' 0 20 500 True)"
    by code_simp
  have f: "failingEvaluate (SelectorScript ''li'' 0 20 500 True)
             = Inl (EvaluationFailure ''Execution context was destroyed'')"
    by (simp add: failingEvaluate_def)
  have m: "DOMCache_get (DOMCache_new 60 100 :: QueryResult DOMCache) ''u''
             (queryShape (defaultParams\<lparr>q_selector := Some ''li''\<rparr>)) 2000
           = (None, DOMCache_new 60 100)"
    by (simp add: DOMCache_get_def DOMCache_new_def)
  from evaluation_failure_writes_nothing
    [where evaluate = failingEvaluate and u = "''u''" and tGet = 2000 and tHit = 2001 and tSet = 2002
       and c = "DOMCache_new 60 100", OF b f]
  have "fst (queryDom_handle failingEvaluate ''u'' 2000 2001 2002
               (defaultParams\<lparr>q_selector := Some ''li''\<rparr>) (DOMCache_new 60 100))
          = Inl (EvaluationFailure ''Execution context was destroyed'') \<and>
        snd (queryDom_handle failingEvaluate ''u'' 2000 2001 2002
               (defaultParams\<lparr>q_selector := Some ''li''\<rparr>) (DOMCache_new 60 100))
          = DOMCache_new 60 100"
    unfolding m by (auto simp: DOMCache_new_def)
  with b f show ?thesis by (simp add: prod_eq_iff)
qed

text \<open>
  C7 as stated fails when the entry under the key of the call has expired: the page
  throws, the error is returned, and the cache has lost that entry.
\<close>

theorem evaluation_failure_drops_expired_entry:
  "fst (queryDom_handle failingEvaluate ''u'' 70000 70001 70002
          (defaultParams\<lparr>q_selector := Some ''li''\<rparr>)
          (DOMCache_set (DOMCache_new 60 100) ''u''
             (queryShape (defaultParams\<lparr>q_selector := Some ''li''\<rparr>)) (empty_result None) 1000))
     = Inl (EvaluationFailure ''Execution context was destroyed'') \<and>
   snd (queryDom_handle failingEvaluate ''u'' 70000 70001 70002
          (defaultParams\<lparr>q_selector := Some ''li''\<rparr>)
          (DOMCache_set (DOMCache_new 60 100) ''u''
             (queryShape (defaultParams\<lparr>q_selector := Some ''li''\<rparr>)) (empty_result None) 1000))
     = DOMCache_new 60 100 \<and>
   DOMCache_set (DOMCache_new 60 100) ''u''
             (queryShape (defaultParams\<lparr>q_selector := Some ''li''\<rparr>)) (empty_result None) 1000
     \<noteq> DOMCache_new 60 100"
  by code_simp

end
